theory Spec2Isabelle
  imports Complex_Main "HOL-Library.Multiset"
begin

section \<open>Data model\<close>

text \<open>
  The program is \<^verbatim>\<open>src/inventory.py\<close>: a class \<^verbatim>\<open>InventoryDBMySQL\<close> that issues SQL
  statements over one MySQL connection, and a dataclass \<^verbatim>\<open>Product\<close>.

  Modelling decisions, all of them about what lies outside the Python file:
  \<^item> a table is the list of its rows, in insertion order;
  \<^item> a Python integer is a mathematical integer; a column of type INT holds the integers
    from \<open>-2147483648\<close> to \<open>2147483647\<close>, and what the server does with a value outside
    depends on its SQL mode, which the source does not set and which is a parameter of the
    model;
  \<^item> a column of type VARCHAR(255) holds a text of at most 255 characters, with the same
    dependence on the SQL mode;
  \<^item> a Python float and a column of type DOUBLE hold a finite binary64 number, and their
    products and sums are rounded to the nearest such number, ties to even;
  \<^item> a DATETIME is the text Python's \<^verbatim>\<open>str\<close> prints for it;
  \<^item> the connection has autocommit off (the connector's default, and the reason the
    source calls \<^verbatim>\<open>commit\<close>): it holds the committed tables and the tables as
    the open transaction sees them;
  \<^item> the AUTO_INCREMENT counters belong to the server and are not rolled back;
  \<^item> \<^verbatim>\<open>ensure_tables\<close> creates the two tables when they are missing; its schema gives
    the row types below, the primary key of products and the cascade from products to
    sales.
\<close>

subsection \<open>Binary64 numbers\<close>

text \<open>\<open>Double m e\<close> is the number \<open>m\<close> times two to the power \<open>e\<close>. A number has several such
  forms (\<open>Double 2 0\<close> and \<open>Double 1 1\<close> are both the float \<^verbatim>\<open>2.0\<close>); \<open>val\<close> gives the
  number. The two zeros of the format are not told apart: they compare equal in Python and
  in SQL. Infinite results are kept apart (\<open>None\<close> below), and no operation of the program
  yields a NaN from finite operands.\<close>

datatype double = Double (mant: int) (expo: int)

definition val :: "double \<Rightarrow> real" where
  "val d = (if 0 \<le> expo d then of_int (mant d) * 2 ^ nat (expo d)
            else of_int (mant d) / 2 ^ nat (- expo d))"

text \<open>The number of binary digits of a natural number.\<close>

function bit_length :: "nat \<Rightarrow> nat" where
  "bit_length n = (if n = 0 then 0 else Suc (bit_length (n div 2)))"
  by pat_completeness auto
termination
  by (relation "measure id") auto

declare bit_length.simps [simp del]

text \<open>The magnitude of \<open>m\<close> times two to the \<open>e\<close> is at least two to the 1024: above every
  finite binary64 number.\<close>

definition too_large :: "int \<Rightarrow> int \<Rightarrow> bool" where
  "too_large m e =
     (if 0 \<le> e then 2 ^ 1024 \<le> \<bar>m\<bar> * 2 ^ nat e else 2 ^ 1024 * 2 ^ nat (- e) \<le> \<bar>m\<bar>)"

text \<open>Rounding of the exact number \<open>m\<close> times two to the \<open>e\<close> to binary64: to the nearest
  number with at most 53 binary digits and an exponent of at least \<open>-1074\<close>, ties to the
  even one; \<open>None\<close> when the result is infinite, which it is when the exact number or
  the rounded one is too large. A number that already has this form is left as it is.\<close>

definition round_double :: "int \<Rightarrow> int \<Rightarrow> double option" where
  "round_double m e =
     (if too_large m e then None
      else if \<bar>m\<bar> < 2 ^ 53 \<and> - 1074 \<le> e then Some (Double m e)
      else
        (let s = nat (max (int (bit_length (nat \<bar>m\<bar>)) - 53) (- 1074 - e));
             q = \<bar>m\<bar> div 2 ^ s;
             r = \<bar>m\<bar> mod 2 ^ s;
             q' = (if 2 ^ s < 2 * r \<or> (2 * r = 2 ^ s \<and> odd q) then q + 1 else q);
             m' = (if m < 0 then - q' else q')
         in if too_large m' (e + int s) then None else Some (Double m' (e + int s))))"

definition double_of_int :: "int \<Rightarrow> double option" where
  "double_of_int i = round_double i 0"

definition double_mul :: "double \<Rightarrow> double \<Rightarrow> double option" where
  "double_mul x y = round_double (mant x * mant y) (expo x + expo y)"

definition double_add :: "double \<Rightarrow> double \<Rightarrow> double option" where
  "double_add x y =
     (let e = min (expo x) (expo y)
      in round_double (mant x * 2 ^ nat (expo x - e) + mant y * 2 ^ nat (expo y - e)) e)"

subsection \<open>Records and tables\<close>

type_synonym datetime = string

text \<open>The dataclass \<^verbatim>\<open>Product\<close>. Python does not enforce the annotation
  \<^verbatim>\<open>category: str\<close>: the constructors below store whatever the row holds, so the
  field is an optional text, \<open>None\<close> being Python's \<^verbatim>\<open>None\<close>.\<close>

record Product =
  prod_id :: "int option"
  name :: string
  category :: "string option"
  price :: double
  stock :: int
  added_date :: "string option"

text \<open>A row of table \<^verbatim>\<open>products\<close>; columns \<^verbatim>\<open>category\<close> and
  \<^verbatim>\<open>added_date\<close> are nullable.\<close>

record products_row =
  col_id :: int
  col_name :: string
  col_category :: "string option"
  col_price :: double
  col_stock :: int
  col_added_date :: "datetime option"

text \<open>A row of table \<^verbatim>\<open>sales\<close>.\<close>

record sales_row =
  sale_id :: int
  product_id :: int
  quantity :: int
  total_price :: double
  sale_date :: "datetime option"

record tables =
  products :: "products_row list"
  sales :: "sales_row list"

text \<open>The connection \<^verbatim>\<open>self.conn\<close> together with the server behind it.
  \<open>found_rows\<close> is the client flag CLIENT_FOUND_ROWS: when it is off, the row count of an
  UPDATE is the number of rows the statement changed, when it is on, the number of rows its
  WHERE clause matched. \<open>sql_strict\<close> is the strict SQL mode of the server: when it is on, a
  statement that assigns a column a value the column cannot hold raises; when it is off, the
  value is adjusted to the column. \<open>clock\<close> is the server's CURRENT_TIMESTAMP.\<close>

record conn =
  committed :: tables
  pending :: tables
  next_product_id :: int
  next_sale_id :: int
  found_rows :: bool
  sql_strict :: bool
  clock :: datetime

section \<open>Python and SQL primitives\<close>

definition digit_char :: "nat \<Rightarrow> char" where
  "digit_char d = char_of (48 + d)"

function str_nat :: "nat \<Rightarrow> string" where
  "str_nat n = (if n < 10 then [digit_char n] else str_nat (n div 10) @ [digit_char (n mod 10)])"
  by pat_completeness auto
termination
  by (relation "measure id") auto

declare str_nat.simps [simp del]

text \<open>Python's \<^verbatim>\<open>str\<close> of an integer, as the f-string of \<^verbatim>\<open>record_sale\<close> prints it.\<close>

definition str_int :: "int \<Rightarrow> string" where
  "str_int i = (if i < 0 then CHR ''-'' # str_nat (nat (- i)) else str_nat (nat i))"

text \<open>\<^verbatim>\<open>str(r[5])\<close>: the text of a DATETIME, and \<^verbatim>\<open>'None'\<close> for NULL.\<close>

definition str_datetime :: "datetime option \<Rightarrow> string" where
  "str_datetime d = (case d of None \<Rightarrow> ''None'' | Some s \<Rightarrow> s)"

text \<open>\<^verbatim>\<open>r[2] or ""\<close>: \<^verbatim>\<open>None\<close> and the empty text are both falsy.\<close>

definition or_empty :: "string option \<Rightarrow> string" where
  "or_empty v = (case v of None \<Rightarrow> '''' | Some s \<Rightarrow> (if s = [] then '''' else s))"

text \<open>Python's \<^verbatim>\<open>price * qty\<close>, a float times an integer: the integer is converted
  to a float, which raises \<^verbatim>\<open>OverflowError\<close> when it is too large, and the two floats are
  multiplied, which raises nothing: an overflowing product is an infinity, \<open>Inr None\<close>.\<close>

definition float_mul_int :: "double \<Rightarrow> int \<Rightarrow> string + double option" where
  "float_mul_int x i =
     (case double_of_int i of
        None \<Rightarrow> Inl ''int too large to convert to float''
      | Some y \<Rightarrow> Inr (double_mul x y))"

text \<open>\<^verbatim>\<open>cur.fetchone()\<close>: the first row of the result, \<^verbatim>\<open>None\<close> when there is none.\<close>

definition fetchone :: "'a list \<Rightarrow> 'a option" where
  "fetchone rows = (case rows of [] \<Rightarrow> None | r # _ \<Rightarrow> Some r)"

text \<open>\<^verbatim>\<open>SELECT ... WHERE id=%s\<close> on table products.\<close>

definition select_by_id :: "conn \<Rightarrow> int \<Rightarrow> products_row list" where
  "select_by_id c pid = filter (\<lambda>r. col_id r = pid) (products (pending c))"

text \<open>\<^verbatim>\<open>UPDATE products SET ... WHERE id=%s\<close>: every matching row is replaced; the
  second component is \<^verbatim>\<open>cur.rowcount\<close>.\<close>

definition update_where_id ::
  "conn \<Rightarrow> int \<Rightarrow> (products_row \<Rightarrow> products_row) \<Rightarrow> conn \<times> nat" where
  "update_where_id c pid f =
     (c\<lparr>pending := (pending c)\<lparr>products :=
          map (\<lambda>r. if col_id r = pid then f r else r) (products (pending c))\<rparr>\<rparr>,
      length (filter (\<lambda>r. col_id r = pid \<and> (found_rows c \<or> f r \<noteq> r)) (products (pending c))))"

text \<open>\<^verbatim>\<open>DELETE FROM products WHERE id=%s\<close>. The foreign key of table sales is declared
  \<^verbatim>\<open>ON DELETE CASCADE\<close> in \<^verbatim>\<open>ensure_tables\<close>, so the sales of a deleted product go
  with it; the row count is that of the products deleted.\<close>

definition delete_where_id :: "conn \<Rightarrow> int \<Rightarrow> conn \<times> nat" where
  "delete_where_id c pid =
     (c\<lparr>pending := (pending c)\<lparr>
          products := filter (\<lambda>r. col_id r \<noteq> pid) (products (pending c)),
          sales := filter (\<lambda>s. product_id s \<noteq> pid) (sales (pending c))\<rparr>\<rparr>,
      length (filter (\<lambda>r. col_id r = pid) (products (pending c))))"

definition commit :: "conn \<Rightarrow> conn" where
  "commit c = c\<lparr>committed := pending c\<rparr>"

definition rollback :: "conn \<Rightarrow> conn" where
  "rollback c = c\<lparr>pending := committed c\<rparr>"

subsection \<open>What a column can hold\<close>

definition int_min :: int where
  "int_min = - 2147483648"

definition int_max :: int where
  "int_max = 2147483647"

definition fits_int :: "int \<Rightarrow> bool" where
  "fits_int v = (int_min \<le> v \<and> v \<le> int_max)"

text \<open>Assigning the value \<open>v\<close> to a column of type INT raises when \<open>v\<close> is outside the range
  and the SQL mode is strict. When the statement does not raise, the column takes the value
  \<open>int_stored v\<close>: \<open>v\<close> itself when it is in the range, and otherwise the bound of the range
  nearest to it.\<close>

definition int_raises :: "conn \<Rightarrow> int \<Rightarrow> bool" where
  "int_raises c v = (sql_strict c \<and> \<not> fits_int v)"

definition int_stored :: "int \<Rightarrow> int" where
  "int_stored v = max int_min (min int_max v)"

text \<open>The same for a column of type VARCHAR(255): a longer text raises in strict mode,
  unless the characters beyond the first 255 are all spaces, and is cut to its first 255
  characters when the statement does not raise. NULL is stored as it is.\<close>

definition fits_varchar :: "string option \<Rightarrow> bool" where
  "fits_varchar v = (case v of None \<Rightarrow> True | Some s \<Rightarrow> length s \<le> 255)"

definition varchar_raises :: "conn \<Rightarrow> string option \<Rightarrow> bool" where
  "varchar_raises c v =
     (case v of
        None \<Rightarrow> False
      | Some s \<Rightarrow> sql_strict c \<and> \<not> list_all (\<lambda>ch. ch = CHR '' '') (drop 255 s))"

definition varchar_stored :: "string \<Rightarrow> string" where
  "varchar_stored s = take 255 s"

text \<open>The messages of the server, as \<^verbatim>\<open>str(e)\<close> prints them.\<close>

definition quoted :: "string \<Rightarrow> string" where
  "quoted s = CHR 0x27 # s @ [CHR 0x27]"

definition out_of_range :: "string \<Rightarrow> string" where
  "out_of_range col =
     ''1264 (22003): Out of range value for column '' @ quoted col @ '' at row 1''"

definition data_too_long :: "string \<Rightarrow> string" where
  "data_too_long col = ''1406 (22001): Data too long for column '' @ quoted col @ '' at row 1''"

text \<open>A float that is an infinity reaches the server as the word \<^verbatim>\<open>inf\<close>, which is no
  number to it.\<close>

definition unknown_column_inf :: string where
  "unknown_column_inf =
     ''1054 (42S22): Unknown column '' @ quoted ''inf'' @ '' in '' @ quoted ''field list''"

subsection \<open>Arithmetic of the server\<close>



section \<open>The data access layer\<close>

text \<open>\<^verbatim>\<open>connect\<close> passes no client flags, and the connector's default set does not
  contain FOUND_ROWS. The arguments are what the server holds when the program starts, and
  its SQL mode.\<close>

definition connect :: "tables \<Rightarrow> int \<Rightarrow> int \<Rightarrow> datetime \<Rightarrow> bool \<Rightarrow> conn" where
  "connect db np ns now strict =
     \<lparr>committed = db, pending = db, next_product_id = np, next_sale_id = ns,
      found_rows = False, sql_strict = strict, clock = now\<rparr>"

definition empty_tables :: tables where
  "empty_tables = \<lparr>products = [], sales = []\<rparr>"

text \<open>The INSERT of \<^verbatim>\<open>add_product\<close>. The columns are assigned in the order of the
  statement: name, category, price, stock. A statement that raises changes nothing.\<close>

definition insert_product :: "conn \<Rightarrow> Product \<Rightarrow> string + conn" where
  "insert_product c p =
     (if varchar_raises c (Some (name p)) then Inl (data_too_long ''name'')
      else if varchar_raises c (category p) then Inl (data_too_long ''category'')
      else if int_raises c (stock p) then Inl (out_of_range ''stock'')
      else Inr (c\<lparr>pending := (pending c)\<lparr>products := products (pending c) @
                   [\<lparr>col_id = next_product_id c, col_name = varchar_stored (name p),
                     col_category = map_option varchar_stored (category p),
                     col_price = price p, col_stock = int_stored (stock p),
                     col_added_date = Some (clock c)\<rparr>]\<rparr>,
                 next_product_id := next_product_id c + 1\<rparr>))"

text \<open>\<^verbatim>\<open>add_product\<close> has no \<^verbatim>\<open>try\<close>: an exception of \<^verbatim>\<open>cur.execute\<close> leaves the
  method, \<open>Inl\<close> below, before the commit. Otherwise the method returns
  \<^verbatim>\<open>cur.lastrowid\<close>.\<close>

definition add_product :: "conn \<Rightarrow> Product \<Rightarrow> (string + int) \<times> conn" where
  "add_product c p =
     (case insert_product c p of
        Inl e \<Rightarrow> (Inl e, c)
      | Inr c1 \<Rightarrow> (Inr (next_product_id c), commit c1))"

text \<open>The row-to-object conversion of \<^verbatim>\<open>get_products\<close>, with \<^verbatim>\<open>r[2] or ""\<close>.\<close>

definition Product_of_row_list :: "products_row \<Rightarrow> Product" where
  "Product_of_row_list r =
     \<lparr>prod_id = Some (col_id r), name = col_name r, category = Some (or_empty (col_category r)),
      price = col_price r, stock = col_stock r,
      added_date = Some (str_datetime (col_added_date r))\<rparr>"

text \<open>The conversion of \<^verbatim>\<open>get_product_by_id\<close> and \<^verbatim>\<open>low_stock\<close>, with plain
  \<^verbatim>\<open>r[2]\<close>.\<close>

definition Product_of_row :: "products_row \<Rightarrow> Product" where
  "Product_of_row r =
     \<lparr>prod_id = Some (col_id r), name = col_name r, category = col_category r,
      price = col_price r, stock = col_stock r,
      added_date = Some (str_datetime (col_added_date r))\<rparr>"

definition get_products :: "conn \<Rightarrow> Product list" where
  "get_products c = map Product_of_row_list (sort_key col_id (products (pending c)))"

definition get_product_by_id :: "conn \<Rightarrow> int \<Rightarrow> Product option" where
  "get_product_by_id c pid =
     (case fetchone (select_by_id c pid) of
        Some r \<Rightarrow> Some (Product_of_row r)
      | None \<Rightarrow> None)"

text \<open>\<^verbatim>\<open>update_stock\<close> and \<^verbatim>\<open>set_stock\<close> are modelled on the values that the column
  \<^verbatim>\<open>stock\<close> holds: the row takes the value computed.\<close>

definition update_stock :: "conn \<Rightarrow> int \<Rightarrow> int \<Rightarrow> bool \<times> conn" where
  "update_stock c pid add_qty =
     (let (c1, rowcount) = update_where_id c pid (\<lambda>r. r\<lparr>col_stock := col_stock r + add_qty\<rparr>)
      in (rowcount > 0, commit c1))"

definition set_stock :: "conn \<Rightarrow> int \<Rightarrow> int \<Rightarrow> bool \<times> conn" where
  "set_stock c pid new_stock =
     (let (c1, rowcount) = update_where_id c pid (\<lambda>r. r\<lparr>col_stock := new_stock\<rparr>)
      in (rowcount > 0, commit c1))"

definition delete_product :: "conn \<Rightarrow> int \<Rightarrow> bool \<times> conn" where
  "delete_product c pid =
     (let (c1, rowcount) = delete_where_id c pid
      in (rowcount > 0, commit c1))"

text \<open>The optional argument \<^verbatim>\<open>threshold: int = 10\<close>.\<close>

definition threshold_arg :: "int option \<Rightarrow> int" where
  "threshold_arg t = (case t of None \<Rightarrow> 10 | Some v \<Rightarrow> v)"

text \<open>\<^verbatim>\<open>ORDER BY stock\<close> leaves the order of rows of equal stock to the server; the
  model takes the stable order, and no theorem below depends on that choice.\<close>

definition low_stock :: "conn \<Rightarrow> int option \<Rightarrow> Product list" where
  "low_stock c t =
     map Product_of_row
       (sort_key col_stock (filter (\<lambda>r. col_stock r < threshold_arg t) (products (pending c))))"


subsection \<open>Recording a sale\<close>

text \<open>The calls of \<^verbatim>\<open>record_sale\<close> that go to the server: the four inside the
  \<^verbatim>\<open>try\<close> block, and \<^verbatim>\<open>self.conn.rollback()\<close> in the \<^verbatim>\<open>except\<close> clause. Each of
  them may raise for a reason of the storage (a lock, a lost connection); the environment
  says which, and with which message (\<^verbatim>\<open>str(e)\<close>). A call that raises changes
  nothing. \<^verbatim>\<open>self.conn.cursor()\<close> and \<^verbatim>\<open>cur.close()\<close> are taken to return.\<close>

datatype stmt = SelectPriceStock | InsertSale | UpdateStock | Commit | Rollback

type_synonym faults = "stmt \<Rightarrow> string option"

definition no_faults :: faults where
  "no_faults = (\<lambda>_. None)"

text \<open>What \<^verbatim>\<open>record_sale\<close> returns: the flag, the total or \<^verbatim>\<open>None\<close>, the message.\<close>

type_synonym sale_result = "bool \<times> double option \<times> string"

text \<open>\<^verbatim>\<open>INSERT INTO sales (product_id, quantity, total_price)\<close>. The product id is that
  of the row just read. The total is the Python float: \<open>None\<close> is an infinity.\<close>

definition insert_sale :: "conn \<Rightarrow> int \<Rightarrow> int \<Rightarrow> double option \<Rightarrow> string + conn" where
  "insert_sale c pid qty tp =
     (case tp of
        None \<Rightarrow> Inl unknown_column_inf
      | Some t \<Rightarrow>
          if int_raises c qty then Inl (out_of_range ''quantity'')
          else Inr (c\<lparr>pending := (pending c)\<lparr>sales := sales (pending c) @
                       [\<lparr>sale_id = next_sale_id c, product_id = pid,
                         quantity = int_stored qty, total_price = t,
                         sale_date = Some (clock c)\<rparr>]\<rparr>,
                     next_sale_id := next_sale_id c + 1\<rparr>))"

text \<open>\<^verbatim>\<open>UPDATE products SET stock = stock - %s WHERE id=%s\<close>.\<close>

definition decrement_stock :: "conn \<Rightarrow> int \<Rightarrow> int \<Rightarrow> string + conn" where
  "decrement_stock c pid qty =
     (if list_ex (\<lambda>r. int_raises c (col_stock r - qty)) (select_by_id c pid)
      then Inl (out_of_range ''stock'')
      else Inr (fst (update_where_id c pid
                       (\<lambda>r. r\<lparr>col_stock := int_stored (col_stock r - qty)\<rparr>))))"

text \<open>The \<^verbatim>\<open>except\<close> clause: \<^verbatim>\<open>self.conn.rollback()\<close>, then the return of the
  message. The rollback is not guarded: when it raises, its exception leaves
  \<^verbatim>\<open>record_sale\<close>, \<open>Inl\<close> below.\<close>

definition on_exception :: "faults \<Rightarrow> conn \<Rightarrow> string \<Rightarrow> (string + sale_result) \<times> conn" where
  "on_exception env c e =
     (case env Rollback of
        Some e' \<Rightarrow> (Inl e', c)
      | None \<Rightarrow> (Inr (False, None, e), rollback c))"

definition record_sale ::
  "faults \<Rightarrow> conn \<Rightarrow> int \<Rightarrow> int \<Rightarrow> (string + sale_result) \<times> conn" where
  "record_sale env c pid qty =
     (case env SelectPriceStock of
        Some e \<Rightarrow> on_exception env c e
      | None \<Rightarrow>
         (case fetchone (select_by_id c pid) of
            None \<Rightarrow> (Inr (False, None, ''Product not found''), c)
          | Some row \<Rightarrow>
             (let price_v = col_price row; stock_v = col_stock row in
              if stock_v < qty
              then (Inr (False, None,
                         ''Not enough stock (available: '' @ str_int stock_v @ '')''), c)
              else
                (case float_mul_int price_v qty of
                   Inl e \<Rightarrow> on_exception env c e
                 | Inr tp \<Rightarrow>
                    (case env InsertSale of
                       Some e \<Rightarrow> on_exception env c e
                     | None \<Rightarrow>
                        (case insert_sale c pid qty tp of
                           Inl e \<Rightarrow> on_exception env c e
                         | Inr c1 \<Rightarrow>
                            (case env UpdateStock of
                               Some e \<Rightarrow> on_exception env c1 e
                             | None \<Rightarrow>
                                (case decrement_stock c1 pid qty of
                                   Inl e \<Rightarrow> on_exception env c1 e
                                 | Inr c2 \<Rightarrow>
                                    (case env Commit of
                                       Some e \<Rightarrow> on_exception env c2 e
                                     | None \<Rightarrow>
                                        (Inr (True, tp, ''Sale recorded''),
                                         commit c2))))))))))"

section \<open>State invariants\<close>

text \<open>No transaction is open between two calls: every operation that returns ends with a
  commit, a rollback, or without having written.\<close>

definition clean :: "conn \<Rightarrow> bool" where
  "clean c = (pending c = committed c)"

text \<open>\<^verbatim>\<open>id\<close> is the primary key of table products.\<close>

definition primary_key :: "conn \<Rightarrow> bool" where
  "primary_key c = distinct (map col_id (products (pending c)))"

text \<open>AUTO_INCREMENT: the identifiers in use are below the counter.\<close>

definition ids_below_counter :: "conn \<Rightarrow> bool" where
  "ids_below_counter c = (\<forall>r\<in>set (products (pending c)). col_id r < next_product_id c)"

text \<open>The three invariants together.\<close>

definition consistent :: "conn \<Rightarrow> bool" where
  "consistent c = (clean c \<and> primary_key c \<and> ids_below_counter c)"

section \<open>Notions used in the statements\<close>

text \<open>The message of the first statement of the write phase that the storage makes raise,
  if there is one: the insert, the update and the commit run in this order.\<close>

definition first_write_fault :: "faults \<Rightarrow> string option" where
  "first_write_fault env =
     (case env InsertSale of
        Some e \<Rightarrow> Some e
      | None \<Rightarrow> (case env UpdateStock of Some e \<Rightarrow> Some e | None \<Rightarrow> env Commit))"

text \<open>The tables after both writes of a sale: the row appended to sales and the stock of
  the product decremented.\<close>

definition sale_applied :: "conn \<Rightarrow> int \<Rightarrow> int \<Rightarrow> double \<Rightarrow> tables" where
  "sale_applied c pid qty tp =
     \<lparr>products = map (\<lambda>r. if col_id r = pid
                          then r\<lparr>col_stock := int_stored (col_stock r - qty)\<rparr> else r)
                   (products (pending c)),
      sales = sales (pending c) @
                [\<lparr>sale_id = next_sale_id c, product_id = pid, quantity = int_stored qty,
                  total_price = tp, sale_date = Some (clock c)\<rparr>]\<rparr>"


section \<open>Example stores\<close>

text \<open>The float \<^verbatim>\<open>9.99\<close>: the binary64 number nearest to 9.99, which is
  \<^verbatim>\<open>0x1.3fae147ae147bp+3\<close>.\<close>

definition dbl_9_99 :: double where
  "dbl_9_99 = Double 5623870034678907 (- 49)"

text \<open>The scenario of the specification: a fresh store on a server in strict mode (the
  default of the server), then \<^verbatim>\<open>add("Widget", "Tools", 9.99, 50)\<close>.\<close>

definition fresh :: conn where
  "fresh = connect empty_tables 1 1 ''2024-05-01 10:00:00'' True"

definition widget :: Product where
  "widget = \<lparr>prod_id = None, name = ''Widget'', category = Some ''Tools'', price = dbl_9_99,
             stock = 50, added_date = None\<rparr>"

definition shop :: conn where
  "shop = snd (add_product fresh widget)"

text \<open>A product stored with a NULL category and price \<^verbatim>\<open>2.0\<close>, and one with no name,
  price \<^verbatim>\<open>-1.0\<close> and stock \<open>-1\<close>.\<close>

definition gadget :: Product where
  "gadget = \<lparr>prod_id = None, name = ''Gadget'', category = None, price = Double 2 0, stock = 3,
             added_date = None\<rparr>"

definition nameless :: Product where
  "nameless = \<lparr>prod_id = None, name = [], category = Some ''Tools'', price = Double (- 1) 0,
               stock = - 1, added_date = None\<rparr>"

definition shop2 :: conn where
  "shop2 = snd (add_product shop gadget)"


text \<open>The widget with a stock that no INT column holds.\<close>

definition bulk :: Product where
  "bulk = widget\<lparr>stock := 3000000000\<rparr>"




text \<open>A storage whose UPDATE raises, the row being locked by another session; and one
  whose connection is lost during the UPDATE, so that the rollback raises as well.\<close>

definition update_times_out :: faults where
  "update_times_out = no_faults(UpdateStock := Some ''1205 (HY000): Lock wait timeout exceeded'')"

definition connection_lost :: faults where
  "connection_lost =
     no_faults(UpdateStock := Some ''2013 (HY000): Lost connection to MySQL server during query'',
               Rollback := Some ''MySQL Connection not available.'')"

text \<open>The store of the scenario after \<^verbatim>\<open>record_sale(1, 5)\<close>.\<close>

definition shop_sold :: conn where
  "shop_sold = snd (record_sale no_faults shop 1 5)"

section \<open>Auxiliary facts about the primitives\<close>


lemma fetchone_filter_hd:
  "fetchone (filter P rows) = Some r \<Longrightarrow> r \<in> set rows \<and> P r"
  unfolding fetchone_def
  by (cases "filter P rows") (auto simp: filter_eq_Cons_iff)

lemma get_product_by_id_Some:
  "get_product_by_id c pid = Some p \<longleftrightarrow>
     (\<exists>row. fetchone (select_by_id c pid) = Some row \<and> p = Product_of_row row)"
  by (auto simp: get_product_by_id_def split: option.splits)

lemma get_product_by_id_None:
  "get_product_by_id c pid = None \<longleftrightarrow> fetchone (select_by_id c pid) = None"
  by (auto simp: get_product_by_id_def split: option.splits)

lemma get_product_by_id_same_products:
  "products (pending c') = products (pending c) \<Longrightarrow>
   get_product_by_id c' i = get_product_by_id c i"
  by (simp add: get_product_by_id_def select_by_id_def)

lemma select_row_facts:
  "fetchone (select_by_id c pid) = Some row \<Longrightarrow>
     row \<in> set (products (pending c)) \<and> col_id row = pid"
  unfolding select_by_id_def by (drule fetchone_filter_hd) simp

lemma fetchone_map_update:
  "fetchone (filter (\<lambda>r. col_id r = pid) rows) = Some row \<Longrightarrow>
   (\<And>r. col_id (f r) = col_id r) \<Longrightarrow>
   fetchone (filter (\<lambda>r. col_id r = pid) (map (\<lambda>r. if col_id r = pid then f r else r) rows))
     = Some (f row)"
  unfolding fetchone_def
  by (induction rows) (auto split: list.splits if_splits)

lemma fetchone_map_other:
  "pid' \<noteq> pid \<Longrightarrow> (\<And>r. col_id (f r) = col_id r) \<Longrightarrow>
   filter (\<lambda>r. col_id r = pid') (map (\<lambda>r. if col_id r = pid then f r else r) rows)
     = filter (\<lambda>r. col_id r = pid') rows"
  by (induction rows) auto

lemma primary_key_unique:
  "distinct (map col_id rows) \<Longrightarrow> row \<in> set rows \<Longrightarrow> r \<in> set rows \<Longrightarrow>
   col_id r = col_id row \<Longrightarrow> r = row"
  by (meson distinct_map inj_onD)

lemma bit_length_0: "bit_length 0 = 0"
  by (subst bit_length.simps) simp

lemma bit_length_1: "bit_length (Suc 0) = Suc 0"
  by (subst bit_length.simps) (simp add: bit_length_0)

lemma bit_length_numeral: "bit_length (numeral k) = Suc (bit_length (numeral k div 2))"
  by (subst bit_length.simps) simp

lemmas bit_length_eval = bit_length_0 bit_length_1 bit_length_numeral

lemmas double_eval = double_of_int_def double_mul_def double_add_def round_double_def
  too_large_def Let_def bit_length_eval

lemma int_stored_fits: "fits_int v \<Longrightarrow> int_stored v = v"
  by (simp add: fits_int_def int_stored_def)

lemma int_stored_nonneg: "0 \<le> v \<Longrightarrow> 0 \<le> int_stored v"
  by (simp add: int_stored_def int_min_def int_max_def)

lemma int_raises_fits: "fits_int v \<Longrightarrow> \<not> int_raises c v"
  by (simp add: int_raises_def)

lemma varchar_stored_fits: "length s \<le> 255 \<Longrightarrow> varchar_stored s = s"
  by (simp add: varchar_stored_def)

lemma varchar_raises_fits: "fits_varchar v \<Longrightarrow> \<not> varchar_raises c v"
  by (cases v) (simp_all add: fits_varchar_def varchar_raises_def)


lemma decrement_in_range:
  assumes "distinct (map col_id rows)" and "row \<in> set rows" and "col_id row = pid"
    and "fits_int (col_stock row - qty)"
  shows "map (\<lambda>r. if col_id r = pid then r\<lparr>col_stock := int_stored (col_stock r - qty)\<rparr> else r)
           rows =
         map (\<lambda>r. if col_id r = pid then r\<lparr>col_stock := col_stock r - qty\<rparr> else r) rows"
proof (rule map_cong [OF refl])
  fix r
  assume "r \<in> set rows"
  show "(if col_id r = pid then r\<lparr>col_stock := int_stored (col_stock r - qty)\<rparr> else r) =
        (if col_id r = pid then r\<lparr>col_stock := col_stock r - qty\<rparr> else r)"
  proof (cases "col_id r = pid")
    case True
    with assms \<open>r \<in> set rows\<close> have "r = row"
      by (simp add: primary_key_unique)
    with assms(4) True show ?thesis
      by (simp add: int_stored_fits)
  next
    case False
    then show ?thesis by simp
  qed
qed

lemma no_raise_in_range:
  assumes "distinct (map col_id rows)" and "row \<in> set rows" and "col_id row = pid"
    and "fits_int (col_stock row - qty)"
  shows "\<not> list_ex (\<lambda>r. int_raises c (col_stock r - qty)) (filter (\<lambda>r. col_id r = pid) rows)"
proof -
  have "\<not> int_raises c (col_stock r - qty)" if "r \<in> set rows" and "col_id r = pid" for r
  proof -
    from assms that have "r = row"
      by (simp add: primary_key_unique)
    with assms(4) show ?thesis
      by (simp add: int_raises_fits)
  qed
  then show ?thesis
    by (auto simp: list_ex_iff)
qed

section \<open>Auxiliary facts about recording a sale\<close>

lemma record_sale_not_found:
  "env SelectPriceStock = None \<Longrightarrow> fetchone (select_by_id c pid) = None \<Longrightarrow>
   record_sale env c pid qty = (Inr (False, None, ''Product not found''), c)"
  by (simp add: record_sale_def)

lemma record_sale_short:
  "env SelectPriceStock = None \<Longrightarrow> fetchone (select_by_id c pid) = Some row \<Longrightarrow>
   col_stock row < qty \<Longrightarrow>
   record_sale env c pid qty =
     (Inr (False, None, ''Not enough stock (available: '' @ str_int (col_stock row) @ '')''), c)"
  by (simp add: record_sale_def)

lemma record_sale_commits:
  assumes "fetchone (select_by_id c pid) = Some row" and "\<not> col_stock row < qty"
    and "float_mul_int (col_price row) qty = Inr (Some tp)"
    and "\<not> int_raises c qty"
    and "\<not> list_ex (\<lambda>r. int_raises c (col_stock r - qty)) (select_by_id c pid)"
  shows "fst (record_sale no_faults c pid qty) = Inr (True, Some tp, ''Sale recorded'')"
    and "pending (snd (record_sale no_faults c pid qty)) = sale_applied c pid qty tp"
    and "committed (snd (record_sale no_faults c pid qty)) = sale_applied c pid qty tp"
  using assms
  by (auto simp: record_sale_def no_faults_def Let_def insert_sale_def decrement_stock_def
        select_by_id_def int_raises_def update_where_id_def commit_def sale_applied_def)

lemma record_sale_in_range:
  assumes pk: "primary_key c"
    and row: "fetchone (select_by_id c pid) = Some row"
    and enough: "\<not> col_stock row < qty"
    and total: "float_mul_int (col_price row) qty = Inr (Some tp)"
    and q_fits: "fits_int qty"
    and s_fits: "fits_int (col_stock row - qty)"
  shows "fst (record_sale no_faults c pid qty) = Inr (True, Some tp, ''Sale recorded'')"
    and "products (pending (snd (record_sale no_faults c pid qty))) =
           map (\<lambda>r. if col_id r = pid then r\<lparr>col_stock := col_stock r - qty\<rparr> else r)
             (products (pending c))"
    and "sales (pending (snd (record_sale no_faults c pid qty))) = sales (pending c) @
           [\<lparr>sale_id = next_sale_id c, product_id = pid, quantity = qty, total_price = tp,
             sale_date = Some (clock c)\<rparr>]"
    and "committed (snd (record_sale no_faults c pid qty)) =
           pending (snd (record_sale no_faults c pid qty))"
proof -
  from pk have d: "distinct (map col_id (products (pending c)))"
    by (simp add: primary_key_def)
  from row have rin: "row \<in> set (products (pending c))" and rid: "col_id row = pid"
    by (simp_all add: select_row_facts)
  have 1: "\<not> int_raises c qty"
    using q_fits by (rule int_raises_fits)
  have 2: "\<not> list_ex (\<lambda>r. int_raises c (col_stock r - qty)) (select_by_id c pid)"
    unfolding select_by_id_def by (rule no_raise_in_range [OF d rin rid s_fits])
  note run = record_sale_commits [OF row enough total 1 2]
  show "fst (record_sale no_faults c pid qty) = Inr (True, Some tp, ''Sale recorded'')"
    by (rule run(1))
  show "products (pending (snd (record_sale no_faults c pid qty))) =
           map (\<lambda>r. if col_id r = pid then r\<lparr>col_stock := col_stock r - qty\<rparr> else r)
             (products (pending c))"
    by (simp add: run(2) sale_applied_def decrement_in_range [OF d rin rid s_fits])
  show "sales (pending (snd (record_sale no_faults c pid qty))) = sales (pending c) @
           [\<lparr>sale_id = next_sale_id c, product_id = pid, quantity = qty, total_price = tp,
             sale_date = Some (clock c)\<rparr>]"
    by (simp add: run(2) sale_applied_def int_stored_fits [OF q_fits])
  show "committed (snd (record_sale no_faults c pid qty)) =
           pending (snd (record_sale no_faults c pid qty))"
    by (simp add: run(2) run(3))
qed

lemma record_sale_products:
  assumes "clean c"
  shows "products (pending (snd (record_sale env c pid qty))) = products (pending c) \<or>
         (\<exists>row. fetchone (select_by_id c pid) = Some row \<and> \<not> col_stock row < qty \<and>
            products (pending (snd (record_sale env c pid qty))) =
              map (\<lambda>r. if col_id r = pid
                        then r\<lparr>col_stock := int_stored (col_stock r - qty)\<rparr> else r)
                (products (pending c)))"
  using assms
  by (auto simp: record_sale_def on_exception_def rollback_def clean_def insert_sale_def
        decrement_stock_def update_where_id_def commit_def Let_def
      split: option.splits sum.splits if_splits)

lemma record_sale_all_or_nothing:
  assumes "clean c" and "env Rollback = None"
  shows "\<exists>ok tot msg c'. record_sale env c pid qty = (Inr (ok, tot, msg), c') \<and>
           pending c' = committed c' \<and>
           (if ok then (\<exists>tp. tot = Some tp \<and> pending c' = sale_applied c pid qty tp)
            else tot = None \<and> pending c' = pending c)"
  using assms
  by (auto simp: record_sale_def on_exception_def rollback_def clean_def insert_sale_def
        decrement_stock_def update_where_id_def commit_def sale_applied_def Let_def
      split: option.splits sum.splits if_splits)

lemma record_sale_write_fault:
  assumes "env SelectPriceStock = None" and "fetchone (select_by_id c pid) = Some row"
    and "\<not> col_stock row < qty" and "first_write_fault env = Some e"
    and "env Rollback = None"
  shows "\<exists>msg. fst (record_sale env c pid qty) = Inr (False, None, msg)"
  using assms
  by (auto simp: record_sale_def first_write_fault_def on_exception_def Let_def
           split: option.splits sum.splits)

lemma record_sale_next_sale_id_on_update_fault:
  assumes "env SelectPriceStock = None" and "env InsertSale = None"
    and "env UpdateStock = Some e" and "env Rollback = None"
    and "fetchone (select_by_id c pid) = Some row" and "\<not> col_stock row < qty"
    and "float_mul_int (col_price row) qty = Inr (Some tp)" and "\<not> int_raises c qty"
  shows "record_sale env c pid qty =
           (Inr (False, None, e), rollback (c\<lparr>next_sale_id := next_sale_id c + 1\<rparr>))"
  using assms
  by (simp add: record_sale_def insert_sale_def on_exception_def rollback_def)

lemma record_sale_next_product_id:
  "next_product_id (snd (record_sale env c pid qty)) = next_product_id c"
  by (auto simp: record_sale_def on_exception_def rollback_def insert_sale_def
        decrement_stock_def update_where_id_def commit_def Let_def
      split: option.splits sum.splits if_splits)

section \<open>Facts about the example stores\<close>

lemma dbl_9_99_nearest: "\<bar>val dbl_9_99 - 9.99\<bar> \<le> 1 / 2 ^ 50"
  by (simp add: val_def dbl_9_99_def)

lemma shop_eq:
  "shop = \<lparr>committed = \<lparr>products = [\<lparr>col_id = 1, col_name = ''Widget'',
                col_category = Some ''Tools'', col_price = dbl_9_99, col_stock = 50,
                col_added_date = Some ''2024-05-01 10:00:00''\<rparr>], sales = []\<rparr>,
            pending = \<lparr>products = [\<lparr>col_id = 1, col_name = ''Widget'',
                col_category = Some ''Tools'', col_price = dbl_9_99, col_stock = 50,
                col_added_date = Some ''2024-05-01 10:00:00''\<rparr>], sales = []\<rparr>,
            next_product_id = 2, next_sale_id = 1, found_rows = False, sql_strict = True,
            clock = ''2024-05-01 10:00:00''\<rparr>"
  by (simp add: shop_def fresh_def widget_def add_product_def insert_product_def connect_def
        empty_tables_def commit_def varchar_raises_def fits_varchar_def int_raises_def
        fits_int_def int_min_def int_max_def int_stored_def varchar_stored_def)

lemma shop_widget:
  "get_product_by_id shop 1 =
     Some \<lparr>prod_id = Some 1, name = ''Widget'', category = Some ''Tools'', price = dbl_9_99,
           stock = 50, added_date = Some ''2024-05-01 10:00:00''\<rparr>"
  by (simp add: shop_eq get_product_by_id_def select_by_id_def fetchone_def Product_of_row_def
                str_datetime_def)

lemma shop_primary_key: "primary_key shop"
  by (simp add: shop_eq primary_key_def)

lemma shop_clean: "clean shop"
  by (simp add: shop_eq clean_def)

lemma str_int_50: "str_int 50 = ''50''"
  by code_simp

lemma widget_times_5: "float_mul_int dbl_9_99 5 = Inr (Some (Double 7029837543348634 (- 47)))"
  by (simp add: float_mul_int_def dbl_9_99_def double_eval)

lemma widget_times_50: "float_mul_int dbl_9_99 50 = Inr (Some (Double 8787296929185792 (- 44)))"
  by (simp add: float_mul_int_def dbl_9_99_def double_eval)

lemma widget_times_minus_3:
  "float_mul_int dbl_9_99 (- 3) = Inr (Some (Double (- 8435805052018360) (- 48)))"
  by (simp add: float_mul_int_def dbl_9_99_def double_eval)




lemma shop_sold_eq:
  "shop_sold = \<lparr>committed = \<lparr>products = [\<lparr>col_id = 1, col_name = ''Widget'',
                col_category = Some ''Tools'', col_price = dbl_9_99, col_stock = 45,
                col_added_date = Some ''2024-05-01 10:00:00''\<rparr>],
              sales = [\<lparr>sale_id = 1, product_id = 1, quantity = 5,
                total_price = Double 7029837543348634 (- 47),
                sale_date = Some ''2024-05-01 10:00:00''\<rparr>]\<rparr>,
            pending = \<lparr>products = [\<lparr>col_id = 1, col_name = ''Widget'',
                col_category = Some ''Tools'', col_price = dbl_9_99, col_stock = 45,
                col_added_date = Some ''2024-05-01 10:00:00''\<rparr>],
              sales = [\<lparr>sale_id = 1, product_id = 1, quantity = 5,
                total_price = Double 7029837543348634 (- 47),
                sale_date = Some ''2024-05-01 10:00:00''\<rparr>]\<rparr>,
            next_product_id = 2, next_sale_id = 2, found_rows = False, sql_strict = True,
            clock = ''2024-05-01 10:00:00''\<rparr>"
  by (simp add: shop_sold_def record_sale_def no_faults_def shop_eq select_by_id_def
        fetchone_def widget_times_5 insert_sale_def decrement_stock_def update_where_id_def
        commit_def int_raises_def fits_int_def int_min_def int_max_def int_stored_def)

lemma shop2_eq:
  "shop2 = \<lparr>committed = \<lparr>products = [\<lparr>col_id = 1, col_name = ''Widget'',
                col_category = Some ''Tools'', col_price = dbl_9_99, col_stock = 50,
                col_added_date = Some ''2024-05-01 10:00:00''\<rparr>,
               \<lparr>col_id = 2, col_name = ''Gadget'',
                col_category = None, col_price = Double 2 0, col_stock = 3,
                col_added_date = Some ''2024-05-01 10:00:00''\<rparr>], sales = []\<rparr>,
            pending = \<lparr>products = [\<lparr>col_id = 1, col_name = ''Widget'',
                col_category = Some ''Tools'', col_price = dbl_9_99, col_stock = 50,
                col_added_date = Some ''2024-05-01 10:00:00''\<rparr>,
               \<lparr>col_id = 2, col_name = ''Gadget'',
                col_category = None, col_price = Double 2 0, col_stock = 3,
                col_added_date = Some ''2024-05-01 10:00:00''\<rparr>], sales = []\<rparr>,
            next_product_id = 3, next_sale_id = 1, found_rows = False, sql_strict = True,
            clock = ''2024-05-01 10:00:00''\<rparr>"
  by (simp add: shop2_def shop_eq gadget_def add_product_def insert_product_def commit_def
        varchar_raises_def fits_varchar_def int_raises_def fits_int_def int_min_def int_max_def
        int_stored_def varchar_stored_def)









text \<open>A failure that leaves the connection usable: the UPDATE of \<^verbatim>\<open>record_sale(1, 5)\<close>
  times out on a lock. The failure comes back as a result, with the message of the
  exception; the tables are those of before; the AUTO_INCREMENT counter of sales is not
  rolled back.\<close>

lemma record_sale_lock_timeout_rolled_back:
  "record_sale update_times_out shop 1 5 =
     (Inr (False, None, ''1205 (HY000): Lock wait timeout exceeded''),
      shop\<lparr>next_sale_id := 2\<rparr>)"
  by (simp add: record_sale_def update_times_out_def no_faults_def shop_eq select_by_id_def
        fetchone_def widget_times_5 insert_sale_def on_exception_def rollback_def
        int_raises_def fits_int_def int_min_def int_max_def)

section \<open>Recording a sale: the claims\<close>




text \<open>
  Claim C2. For every product id \<open>pid\<close> present in the store and every quantity \<open>qty\<close>
  strictly above the product's current stock \<open>N\<close>, \<^verbatim>\<open>record_sale(pid, qty)\<close> returns
  failure with the message \<^verbatim>\<open>Not enough stock (available: N)\<close>, and the whole state,
  the product's stock and the sales table included, is what it was before the call. The
  read of price and stock is supposed not to raise.
\<close>

theorem record_sale_beyond_stock:
  assumes "env SelectPriceStock = None"
    and "get_product_by_id c pid = Some p"
    and "stock p < qty"
  shows "record_sale env c pid qty =
           (Inr (False, None, ''Not enough stock (available: '' @ str_int (stock p) @ '')''), c)"
proof -
  from assms(2) obtain row where row: "fetchone (select_by_id c pid) = Some row"
    and p: "p = Product_of_row row"
    by (auto simp: get_product_by_id_Some)
  from p have "stock p = col_stock row"
    by (simp add: Product_of_row_def)
  with record_sale_short [where env = env, OF assms(1) row, of qty] assms(3) show ?thesis
    by simp
qed

theorem record_sale_beyond_stock_witness:
  "no_faults SelectPriceStock = None \<and>
   map_option stock (get_product_by_id shop 1) = Some 50 \<and>
   record_sale no_faults shop 1 1000 =
     (Inr (False, None, ''Not enough stock (available: 50)''), shop)"
proof -
  have 1: "no_faults SelectPriceStock = None"
    by (simp add: no_faults_def)
  have 2: "stock \<lparr>prod_id = Some 1, name = ''Widget'', category = Some ''Tools'',
      price = dbl_9_99, stock = 50, added_date = Some ''2024-05-01 10:00:00''\<rparr> < 1000"
    by simp
  from record_sale_beyond_stock [where env = no_faults, OF 1 shop_widget 2] show ?thesis
    by (simp add: 1 shop_widget str_int_50)
qed

text \<open>
  Claim C3 says that every failure of the write phase is rolled back and comes back as a
  result value, never as an unhandled fault. The code has the \<^verbatim>\<open>try\<close> and
  \<^verbatim>\<open>except\<close> for that, but calls \<^verbatim>\<open>self.conn.rollback()\<close> inside the
  \<^verbatim>\<open>except\<close> clause with no guard. In the store of the scenario, when the connection is
  lost during the UPDATE of \<^verbatim>\<open>record_sale(1, 5)\<close>, the stock check has passed, the UPDATE
  raises, the rollback raises as well, and the exception of the rollback leaves
  \<^verbatim>\<open>record_sale\<close>: the caller gets no result value.
\<close>

theorem record_sale_raises_when_rollback_fails:
  "connection_lost SelectPriceStock = None \<and>
   map_option stock (get_product_by_id shop 1) = Some 50 \<and>
   first_write_fault connection_lost =
     Some ''2013 (HY000): Lost connection to MySQL server during query'' \<and>
   connection_lost Rollback = Some ''MySQL Connection not available.'' \<and>
   fst (record_sale connection_lost shop 1 5) = Inl ''MySQL Connection not available.''"
  by (simp add: connection_lost_def no_faults_def first_write_fault_def shop_widget)
     (simp add: record_sale_def shop_eq select_by_id_def fetchone_def widget_times_5
        insert_sale_def int_raises_def fits_int_def int_min_def int_max_def on_exception_def)

text \<open>
  Claim C6. For every product whose stock is non-negative before a call of
  \<^verbatim>\<open>record_sale\<close>, with any product id, any quantity and any failure of the storage,
  the product is still there after the call and its stock is still non-negative.
\<close>

theorem record_sale_keeps_stock_nonnegative:
  assumes cl: "clean c"
    and before: "get_product_by_id c i = Some p"
    and nonneg: "0 \<le> stock p"
  shows "\<exists>p'. get_product_by_id (snd (record_sale env c pid qty)) i = Some p' \<and>
              0 \<le> stock p'"
proof -
  let ?c' = "snd (record_sale env c pid qty)"
  from record_sale_products [OF cl, of env pid qty]
  consider (same) "products (pending ?c') = products (pending c)"
    | (sold) row where "fetchone (select_by_id c pid) = Some row" and "\<not> col_stock row < qty"
        and "products (pending ?c') =
               map (\<lambda>r. if col_id r = pid
                         then r\<lparr>col_stock := int_stored (col_stock r - qty)\<rparr> else r)
                 (products (pending c))"
    by blast
  then show ?thesis
  proof cases
    case same
    then have "get_product_by_id ?c' i = get_product_by_id c i"
      by (rule get_product_by_id_same_products)
    with before nonneg show ?thesis
      by simp
  next
    case sold
    show ?thesis
    proof (cases "i = pid")
      case True
      have "fetchone (select_by_id ?c' pid) =
              Some (row\<lparr>col_stock := int_stored (col_stock row - qty)\<rparr>)"
        unfolding select_by_id_def sold(3)
        by (rule fetchone_map_update) (use sold(1) in \<open>simp_all add: select_by_id_def\<close>)
      moreover from sold(2) have "0 \<le> int_stored (col_stock row - qty)"
        by (simp add: int_stored_nonneg)
      ultimately show ?thesis
        using True by (simp add: get_product_by_id_def Product_of_row_def)
    next
      case False
      have "select_by_id ?c' i = select_by_id c i"
        unfolding select_by_id_def sold(3)
        by (rule fetchone_map_other) (use False in simp_all)
      then have "get_product_by_id ?c' i = get_product_by_id c i"
        by (simp add: get_product_by_id_def)
      with before nonneg show ?thesis
        by simp
    qed
  qed
qed

theorem record_sale_keeps_stock_nonnegative_witness:
  "clean shop \<and> map_option stock (get_product_by_id shop 1) = Some 50 \<and>
   map_option stock (get_product_by_id (snd (record_sale no_faults shop 1 50)) 1) = Some 0"
proof -
  have 1: "0 \<le> stock \<lparr>prod_id = Some 1, name = ''Widget'', category = Some ''Tools'',
      price = dbl_9_99, stock = 50, added_date = Some ''2024-05-01 10:00:00''\<rparr>"
    by simp
  have 2: "map_option stock (get_product_by_id (snd (record_sale no_faults shop 1 50)) 1) = Some 0"
    by (simp add: record_sale_def no_faults_def shop_eq select_by_id_def fetchone_def
          widget_times_50 insert_sale_def decrement_stock_def update_where_id_def commit_def
          int_raises_def fits_int_def int_min_def int_max_def int_stored_def
          get_product_by_id_def Product_of_row_def)
  from record_sale_keeps_stock_nonnegative [OF shop_clean shop_widget 1, where env = no_faults and pid = 1 and qty = 50]
    2 shop_clean shop_widget
  show ?thesis
    by simp
qed

section \<open>Quantities and products that the specification calls malformed\<close>

lemma record_sale_effects:
  assumes pk: "primary_key c"
    and present: "get_product_by_id c pid = Some p"
    and enough: "\<not> stock p < qty"
    and q_fits: "fits_int qty"
    and s_fits: "fits_int (stock p - qty)"
    and total: "float_mul_int (price p) qty = Inr (Some tp)"
  shows "fst (record_sale no_faults c pid qty) = Inr (True, Some tp, ''Sale recorded'')"
    and "get_product_by_id (snd (record_sale no_faults c pid qty)) pid =
           Some (p\<lparr>stock := stock p - qty\<rparr>)"
    and "sales (pending (snd (record_sale no_faults c pid qty))) = sales (pending c) @
           [\<lparr>sale_id = next_sale_id c, product_id = pid, quantity = qty,
             total_price = tp, sale_date = Some (clock c)\<rparr>]"
proof -
  from present obtain row where row: "fetchone (select_by_id c pid) = Some row"
    and p: "p = Product_of_row row"
    by (auto simp: get_product_by_id_Some)
  from p have pr: "price p = col_price row" and st: "stock p = col_stock row"
    by (simp_all add: Product_of_row_def)
  let ?f = "\<lambda>r. r\<lparr>col_stock := col_stock r - qty\<rparr>"
  let ?c' = "snd (record_sale no_faults c pid qty)"
  from enough st have 1: "\<not> col_stock row < qty" by simp
  from total pr have 2: "float_mul_int (col_price row) qty = Inr (Some tp)" by simp
  from s_fits st have 3: "fits_int (col_stock row - qty)" by simp
  note eff = record_sale_in_range [OF pk row 1 2 q_fits 3]
  show "fst (record_sale no_faults c pid qty) = Inr (True, Some tp, ''Sale recorded'')"
    by (rule eff(1))
  have "fetchone (select_by_id ?c' pid) = Some (?f row)"
    unfolding select_by_id_def eff(2)
    by (rule fetchone_map_update) (use row in \<open>simp_all add: select_by_id_def\<close>)
  then show "get_product_by_id ?c' pid = Some (p\<lparr>stock := stock p - qty\<rparr>)"
    by (simp add: get_product_by_id_def p Product_of_row_def)
  show "sales (pending ?c') = sales (pending c) @
           [\<lparr>sale_id = next_sale_id c, product_id = pid, quantity = qty,
             total_price = tp, sale_date = Some (clock c)\<rparr>]"
    by (rule eff(3))
qed

text \<open>
  Claim C5, as stated, fails: \<^verbatim>\<open>record_sale\<close> has no check of the sign of the quantity.
  In the store of the scenario (one product, stock 50, price \<^verbatim>\<open>9.99\<close>),
  \<^verbatim>\<open>record_sale(1, -3)\<close> succeeds, records a sale of quantity \<open>-3\<close> and total
  \<^verbatim>\<open>-29.97\<close>, and raises the stock to 53.
\<close>

theorem record_sale_negative_quantity_accepted:
  "fst (record_sale no_faults shop 1 (- 3)) =
     Inr (True, Some (Double (- 8435805052018360) (- 48)), ''Sale recorded'') \<and>
   \<bar>val (Double (- 8435805052018360) (- 48)) - (- 29.97)\<bar> \<le> 1 / 2 ^ 49 \<and>
   map col_stock (products (pending (snd (record_sale no_faults shop 1 (- 3))))) = [53] \<and>
   map quantity (sales (pending (snd (record_sale no_faults shop 1 (- 3))))) = [- 3]"
  by (simp add: record_sale_def no_faults_def shop_eq select_by_id_def fetchone_def
        widget_times_minus_3 insert_sale_def decrement_stock_def update_where_id_def commit_def
        int_raises_def fits_int_def int_min_def int_max_def int_stored_def val_def)

text \<open>
  Claim C5, amended. For every product id \<open>pid\<close> and every quantity \<open>qty \<le> 0\<close>,
  \<^verbatim>\<open>record_sale(pid, qty)\<close> on a storage that does not fail checks the quantity against
  the stock only: when no product has that id it returns the failure
  \<^verbatim>\<open>Product not found\<close> and the state is unchanged; when the stock is below \<open>qty\<close> it
  returns the failure \<^verbatim>\<open>Not enough stock (available: N)\<close> and the state is unchanged;
  otherwise, when \<open>qty\<close> and the stock minus \<open>qty\<close> are values of an INT column and the
  float product of the price and \<open>qty\<close> is finite, it succeeds, appends one sale row of
  quantity \<open>qty\<close> and that total, and sets the stock to stock minus \<open>qty\<close>.
\<close>

theorem record_sale_nonpositive_quantity:
  assumes "qty \<le> 0"
  shows "case get_product_by_id c pid of
           None \<Rightarrow> record_sale no_faults c pid qty = (Inr (False, None, ''Product not found''), c)
         | Some p \<Rightarrow>
             if stock p < qty
             then record_sale no_faults c pid qty =
                    (Inr (False, None,
                      ''Not enough stock (available: '' @ str_int (stock p) @ '')''), c)
             else (\<forall>tp. primary_key c \<and> fits_int qty \<and> fits_int (stock p - qty) \<and>
                     float_mul_int (price p) qty = Inr (Some tp) \<longrightarrow>
                  fst (record_sale no_faults c pid qty) =
                    Inr (True, Some tp, ''Sale recorded'') \<and>
                  get_product_by_id (snd (record_sale no_faults c pid qty)) pid =
                    Some (p\<lparr>stock := stock p - qty\<rparr>) \<and>
                  sales (pending (snd (record_sale no_faults c pid qty))) =
                    sales (pending c) @
                      [\<lparr>sale_id = next_sale_id c, product_id = pid, quantity = qty,
                        total_price = tp, sale_date = Some (clock c)\<rparr>])"
proof (cases "get_product_by_id c pid")
  case None
  then have "fetchone (select_by_id c pid) = None"
    by (simp add: get_product_by_id_None)
  with None show ?thesis
    by (simp add: record_sale_not_found no_faults_def)
next
  case (Some p)
  then obtain row where row: "fetchone (select_by_id c pid) = Some row"
    and p: "p = Product_of_row row"
    by (auto simp: get_product_by_id_Some)
  show ?thesis
  proof (cases "stock p < qty")
    case True
    with p have "col_stock row < qty"
      by (simp add: Product_of_row_def)
    with row have "record_sale no_faults c pid qty =
        (Inr (False, None, ''Not enough stock (available: '' @ str_int (col_stock row) @ '')''), c)"
      by (simp add: record_sale_short no_faults_def)
    with Some True p show ?thesis
      by (simp add: Product_of_row_def)
  next
    case False
    with Some show ?thesis
      by (simp add: record_sale_effects [OF _ Some False])
  qed
qed

theorem record_sale_nonpositive_quantity_witness:
  "(- 3 :: int) \<le> 0 \<and> primary_key shop \<and> fits_int (- 3) \<and> fits_int (50 - (- 3)) \<and>
   float_mul_int dbl_9_99 (- 3) = Inr (Some (Double (- 8435805052018360) (- 48))) \<and>
   fst (record_sale no_faults shop 1 (- 3)) =
     Inr (True, Some (Double (- 8435805052018360) (- 48)), ''Sale recorded'') \<and>
   map_option stock (get_product_by_id (snd (record_sale no_faults shop 1 (- 3))) 1) = Some 53 \<and>
   sales (pending (snd (record_sale no_faults shop 1 (- 3)))) =
     [\<lparr>sale_id = 1, product_id = 1, quantity = - 3,
       total_price = Double (- 8435805052018360) (- 48),
       sale_date = Some ''2024-05-01 10:00:00''\<rparr>]"
proof -
  have 1: "(- 3 :: int) \<le> 0"
    by simp
  have 2: "fits_int (- 3)" "fits_int (50 - (- 3))"
    by (simp_all add: fits_int_def int_min_def int_max_def)
  from record_sale_nonpositive_quantity [OF 1, of shop 1] 2 show ?thesis
    by (simp add: shop_widget shop_primary_key widget_times_minus_3) (simp add: shop_eq)
qed

text \<open>
  Claim C4, as stated, fails, in both directions: \<^verbatim>\<open>add_product\<close> validates nothing,
  and what it inserts is subject to the columns. A product with the empty name, price
  \<^verbatim>\<open>-1.0\<close> and stock \<open>-1\<close> is inserted into the fresh store and gets identifier 1. A
  widget with stock 3000000000, which has a name and no negative number, is not inserted:
  the INSERT raises and the exception leaves \<^verbatim>\<open>add_product\<close>.
\<close>

theorem add_product_accepts_nameless:
  "name nameless = [] \<and> val (price nameless) < 0 \<and> stock nameless < 0 \<and>
   fst (add_product fresh nameless) = Inr 1 \<and>
   products (pending (snd (add_product fresh nameless))) =
     [\<lparr>col_id = 1, col_name = [], col_category = Some ''Tools'', col_price = Double (- 1) 0,
       col_stock = - 1, col_added_date = Some ''2024-05-01 10:00:00''\<rparr>] \<and>
   name bulk \<noteq> [] \<and> 0 \<le> val (price bulk) \<and> 0 \<le> stock bulk \<and>
   add_product fresh bulk =
     (Inl (''1264 (22003): Out of range value for column '' @ quoted ''stock'' @ '' at row 1''),
      fresh)"
  by (simp add: add_product_def insert_product_def fresh_def nameless_def bulk_def widget_def
        connect_def empty_tables_def commit_def varchar_raises_def fits_varchar_def
        int_raises_def fits_int_def int_min_def int_max_def int_stored_def varchar_stored_def
        out_of_range_def val_def dbl_9_99_def)

text \<open>
  Claim C4, amended. For every input whose name and category have at most 255 characters
  and whose stock is a value of an INT column, an empty name and a negative price or stock
  included, \<^verbatim>\<open>add_product\<close> appends one product row with the given name, category,
  price and stock, leaves the sales table alone, commits, and returns the identifier the
  row was given, the next value of the counter.
\<close>

theorem add_product_inserts:
  assumes "length (name p) \<le> 255" and "fits_varchar (category p)" and "fits_int (stock p)"
  shows "case add_product c p of
     (res, c') \<Rightarrow>
        res = Inr (next_product_id c) \<and>
        products (pending c') = products (pending c) @
          [\<lparr>col_id = next_product_id c, col_name = name p, col_category = category p,
            col_price = price p, col_stock = stock p, col_added_date = Some (clock c)\<rparr>] \<and>
        sales (pending c') = sales (pending c) \<and>
        committed c' = pending c' \<and>
        next_product_id c' = next_product_id c + 1"
proof -
  from assms(2) have "map_option varchar_stored (category p) = category p"
    by (cases "category p") (simp_all add: fits_varchar_def varchar_stored_def)
  moreover from assms(1) have "\<not> varchar_raises c (Some (name p))"
    by (simp add: varchar_raises_fits fits_varchar_def)
  moreover from assms(2) have "\<not> varchar_raises c (category p)"
    by (rule varchar_raises_fits)
  ultimately show ?thesis
    using assms
    by (simp add: add_product_def insert_product_def commit_def int_raises_fits
          int_stored_fits varchar_stored_fits)
qed

theorem add_product_inserts_witness:
  "length (name nameless) \<le> 255 \<and> fits_varchar (category nameless) \<and>
   fits_int (stock nameless) \<and>
   fst (add_product fresh nameless) = Inr 1 \<and>
   products (pending (snd (add_product fresh nameless))) =
     [\<lparr>col_id = 1, col_name = [], col_category = Some ''Tools'', col_price = Double (- 1) 0,
       col_stock = - 1, col_added_date = Some ''2024-05-01 10:00:00''\<rparr>] \<and>
   committed (snd (add_product fresh nameless)) = pending (snd (add_product fresh nameless)) \<and>
   next_product_id (snd (add_product fresh nameless)) = 2"
proof -
  have 1: "length (name nameless) \<le> 255" and 2: "fits_varchar (category nameless)"
    and 3: "fits_int (stock nameless)"
    by (simp_all add: nameless_def fits_varchar_def fits_int_def int_min_def int_max_def)
  from add_product_inserts [OF 1 2 3, of fresh] 1 2 3 show ?thesis
    by (simp add: split_def)
       (simp add: fresh_def connect_def empty_tables_def nameless_def)
qed

section \<open>Stock updates, listing and deletion\<close>

lemma set_col_stock_fixed:
  "(r\<lparr>col_stock := v\<rparr> = r) \<longleftrightarrow> col_stock r = v" for r :: products_row
  by (cases r) auto

lemma fetchone_None_iff: "fetchone xs = None \<longleftrightarrow> xs = []"
  by (simp add: fetchone_def split: list.splits)

lemma present_iff:
  "(\<exists>p. get_product_by_id c pid = Some p) \<longleftrightarrow>
     (\<exists>r\<in>set (products (pending c)). col_id r = pid)"
proof -
  have "(\<exists>p. get_product_by_id c pid = Some p) \<longleftrightarrow> get_product_by_id c pid \<noteq> None"
    by simp
  also have "\<dots> \<longleftrightarrow> select_by_id c pid \<noteq> []"
    by (simp add: get_product_by_id_None fetchone_None_iff)
  also have "\<dots> \<longleftrightarrow> (\<exists>r\<in>set (products (pending c)). col_id r = pid)"
    by (simp add: select_by_id_def filter_empty_conv)
  finally show ?thesis .
qed

lemma set_stock_flag:
  "fst (set_stock c pid v) \<longleftrightarrow>
     (\<exists>r\<in>set (products (pending c)). col_id r = pid \<and> (found_rows c \<or> col_stock r \<noteq> v))"
  by (auto simp: set_stock_def update_where_id_def set_col_stock_fixed filter_empty_conv
        length_greater_0_conv [symmetric] simp del: length_greater_0_conv)

lemma update_stock_flag:
  "fst (update_stock c pid n) \<longleftrightarrow>
     (\<exists>r\<in>set (products (pending c)). col_id r = pid \<and> (found_rows c \<or> n \<noteq> 0))"
  by (auto simp: update_stock_def update_where_id_def set_col_stock_fixed filter_empty_conv
        length_greater_0_conv [symmetric] simp del: length_greater_0_conv)

lemma set_stock_products:
  "products (pending (snd (set_stock c pid v))) =
     map (\<lambda>r. if col_id r = pid then r\<lparr>col_stock := v\<rparr> else r) (products (pending c))"
  by (simp add: set_stock_def update_where_id_def commit_def)

lemma update_stock_products:
  "products (pending (snd (update_stock c pid n))) =
     map (\<lambda>r. if col_id r = pid then r\<lparr>col_stock := col_stock r + n\<rparr> else r)
       (products (pending c))"
  by (simp add: update_stock_def update_where_id_def commit_def)

lemma stock_flags_with_found_rows:
  "found_rows c \<Longrightarrow>
     fst (set_stock c pid v) = (\<exists>p. get_product_by_id c pid = Some p) \<and>
     fst (update_stock c pid n) = (\<exists>p. get_product_by_id c pid = Some p)"
  by (simp add: set_stock_flag update_stock_flag present_iff)

lemma stock_of_row: "stock (Product_of_row r) = col_stock r"
  by (simp add: Product_of_row_def)

lemma Product_of_row_list_eq:
  "Product_of_row_list r = (Product_of_row r)\<lparr>category := Some (or_empty (col_category r))\<rparr>"
  by (simp add: Product_of_row_list_def Product_of_row_def)

lemma get_product_by_id_in_get_products:
  assumes "get_product_by_id c pid = Some p"
  shows "p\<lparr>category := Some (or_empty (category p))\<rparr> \<in> set (get_products c)"
proof -
  from assms obtain row where row: "fetchone (select_by_id c pid) = Some row"
    and p: "p = Product_of_row row"
    by (auto simp: get_product_by_id_Some)
  from row have "row \<in> set (products (pending c))"
    by (simp add: select_row_facts)
  then have "Product_of_row_list row \<in> set (get_products c)"
    by (simp add: get_products_def)
  moreover have "category p = col_category row"
    by (simp add: p Product_of_row_def)
  ultimately show ?thesis
    by (simp add: Product_of_row_list_eq p)
qed

lemma get_product_by_id_agrees_unless_null:
  assumes "get_product_by_id c pid = Some p" and "category p = Some s"
  shows "p \<in> set (get_products c)"
proof -
  from assms(2) have "or_empty (category p) = s"
    by (simp add: or_empty_def)
  moreover from assms(2) have "p\<lparr>category := Some s\<rparr> = p"
    by (cases p) auto
  ultimately show ?thesis
    using get_product_by_id_in_get_products [OF assms(1)] by simp
qed

text \<open>
  Claim C7 says that \<^verbatim>\<open>update_stock\<close> and \<^verbatim>\<open>set_stock\<close> return true exactly when
  a product with the id exists. The code returns \<^verbatim>\<open>cur.rowcount > 0\<close>, and on the
  connection that \<^verbatim>\<open>connect\<close> opens (no FOUND_ROWS flag) the row count of an UPDATE
  is the number of rows changed. In the store of the scenario product 1 exists with stock
  50, yet \<^verbatim>\<open>set_stock(1, 50)\<close> and \<^verbatim>\<open>update_stock(1, 0)\<close> return false; with a value
  that changes the stock both return true.
\<close>

theorem set_stock_to_current_value_reports_failure:
  "found_rows shop = False \<and>
   get_product_by_id shop 1 =
     Some \<lparr>prod_id = Some 1, name = ''Widget'', category = Some ''Tools'', price = dbl_9_99,
           stock = 50, added_date = Some ''2024-05-01 10:00:00''\<rparr> \<and>
   fst (set_stock shop 1 50) = False \<and>
   fst (update_stock shop 1 0) = False \<and>
   fst (set_stock shop 1 51) = True \<and>
   fst (update_stock shop 1 1) = True"
  by (simp add: set_stock_flag update_stock_flag shop_widget) (simp add: shop_eq)

text \<open>
  Claim C8. For every store and threshold, \<^verbatim>\<open>low_stock(threshold)\<close> returns exactly the
  products whose stock is strictly below the threshold, each as often as the table holds
  it, in ascending order of stock; no product returned has a stock at or above the
  threshold; and the threshold is 10 when the argument is left out.
\<close>

theorem low_stock_exact:
  "mset (low_stock c t) =
     image_mset Product_of_row
       (filter_mset (\<lambda>r. col_stock r < threshold_arg t) (mset (products (pending c)))) \<and>
   sorted (map stock (low_stock c t)) \<and>
   (\<forall>p\<in>set (low_stock c t). stock p < threshold_arg t) \<and>
   threshold_arg None = 10"
proof -
  let ?rows = "filter (\<lambda>r. col_stock r < threshold_arg t) (products (pending c))"
  have 1: "mset (low_stock c t) =
     image_mset Product_of_row
       (filter_mset (\<lambda>r. col_stock r < threshold_arg t) (mset (products (pending c))))"
    by (simp add: low_stock_def)
  have "map stock (low_stock c t) = map col_stock (sort_key col_stock ?rows)"
    by (simp add: low_stock_def stock_of_row comp_def)
  then have 2: "sorted (map stock (low_stock c t))"
    by (simp add: sorted_sort_key)
  have 3: "\<forall>p\<in>set (low_stock c t). stock p < threshold_arg t"
    by (auto simp: low_stock_def stock_of_row)
  have 4: "threshold_arg None = 10"
    by (simp add: threshold_arg_def)
  from 1 2 3 4 show ?thesis
    by blast
qed

theorem low_stock_exact_witness:
  "low_stock shop2 None =
     [\<lparr>prod_id = Some 2, name = ''Gadget'', category = None, price = Double 2 0, stock = 3,
       added_date = Some ''2024-05-01 10:00:00''\<rparr>] \<and>
   map stock (low_stock shop2 (Some 51)) = [3, 50] \<and>
   sorted (map stock (low_stock shop2 (Some 51)))"
proof -
  have "low_stock shop2 None =
     [\<lparr>prod_id = Some 2, name = ''Gadget'', category = None, price = Double 2 0, stock = 3,
       added_date = Some ''2024-05-01 10:00:00''\<rparr>]"
    by (simp add: low_stock_def threshold_arg_def shop2_eq Product_of_row_def str_datetime_def)
  moreover have "map stock (low_stock shop2 (Some 51)) = [3, 50]"
    by (simp add: low_stock_def threshold_arg_def shop2_eq Product_of_row_def)
  ultimately show ?thesis
    using low_stock_exact [of shop2 "Some 51"] by simp
qed

text \<open>
  Claim C9. For every store and product id, \<^verbatim>\<open>delete_product(pid)\<close> returns true
  exactly when a product with that id was present; afterwards
  \<^verbatim>\<open>get_product_by_id(pid)\<close> returns \<^verbatim>\<open>None\<close>, the products table is the old one
  without that product, the sales table is the old one without the sales referencing it,
  so that no sale references it, and the deletion is committed.
\<close>

theorem delete_product_cascades:
  "case delete_product c pid of
     (ok, c') \<Rightarrow>
        ok = (\<exists>p. get_product_by_id c pid = Some p) \<and>
        get_product_by_id c' pid = None \<and>
        products (pending c') = filter (\<lambda>r. col_id r \<noteq> pid) (products (pending c)) \<and>
        sales (pending c') = filter (\<lambda>s. product_id s \<noteq> pid) (sales (pending c)) \<and>
        pid \<notin> product_id ` set (sales (pending c')) \<and>
        committed c' = pending c'"
proof -
  let ?c' = "snd (delete_product c pid)"
  have ok: "fst (delete_product c pid) = (\<exists>p. get_product_by_id c pid = Some p)"
    unfolding present_iff
    by (auto simp: delete_product_def delete_where_id_def filter_empty_conv
          length_greater_0_conv [symmetric] simp del: length_greater_0_conv)
  have prods: "products (pending ?c') = filter (\<lambda>r. col_id r \<noteq> pid) (products (pending c))"
    and sold: "sales (pending ?c') = filter (\<lambda>s. product_id s \<noteq> pid) (sales (pending c))"
    and com: "committed ?c' = pending ?c'"
    by (simp_all add: delete_product_def delete_where_id_def commit_def)
  have "select_by_id ?c' pid = []"
    by (simp add: select_by_id_def prods filter_empty_conv)
  then have gone: "get_product_by_id ?c' pid = None"
    by (simp add: get_product_by_id_def fetchone_def)
  have none: "pid \<notin> product_id ` set (sales (pending ?c'))"
    by (auto simp: sold)
  from ok prods sold com gone none show ?thesis
    by (simp add: split_def)
qed

theorem delete_product_cascades_witness:
  "get_product_by_id shop_sold 1 =
     Some \<lparr>prod_id = Some 1, name = ''Widget'', category = Some ''Tools'', price = dbl_9_99,
           stock = 45, added_date = Some ''2024-05-01 10:00:00''\<rparr> \<and>
   map product_id (sales (pending shop_sold)) = [1] \<and>
   fst (delete_product shop_sold 1) = True \<and>
   get_product_by_id (snd (delete_product shop_sold 1)) 1 = None \<and>
   pending (snd (delete_product shop_sold 1)) = \<lparr>products = [], sales = []\<rparr> \<and>
   get_product_by_id shop_sold 7 = None \<and>
   fst (delete_product shop_sold 7) = False"
proof -
  have 1: "get_product_by_id shop_sold 1 =
     Some \<lparr>prod_id = Some 1, name = ''Widget'', category = Some ''Tools'', price = dbl_9_99,
           stock = 45, added_date = Some ''2024-05-01 10:00:00''\<rparr>"
    and 7: "get_product_by_id shop_sold 7 = None"
    and s: "map product_id (sales (pending shop_sold)) = [1]"
    by (simp_all add: shop_sold_eq get_product_by_id_def select_by_id_def fetchone_def
          Product_of_row_def str_datetime_def)
  have p: "pending (snd (delete_product shop_sold 1)) = \<lparr>products = [], sales = []\<rparr>"
    by (simp add: delete_product_def delete_where_id_def commit_def shop_sold_eq)
  from delete_product_cascades [of shop_sold 1] delete_product_cascades [of shop_sold 7]
    1 7 s p
  show ?thesis
    by (simp add: split_def)
qed

text \<open>
  Claim C10 says that \<^verbatim>\<open>get_product_by_id(pid)\<close> equals, field for field, the element
  of \<^verbatim>\<open>get_products()\<close> with that id, also when the stored category is NULL. The code
  converts the category with \<^verbatim>\<open>r[2] or ""\<close> in \<^verbatim>\<open>get_products\<close> and with plain
  \<^verbatim>\<open>r[2]\<close> in \<^verbatim>\<open>get_product_by_id\<close>: for the product stored with a NULL category
  the first gives the empty text and the second \<^verbatim>\<open>None\<close>.
\<close>

theorem get_product_by_id_disagrees_on_null_category:
  "get_product_by_id shop2 2 =
     Some \<lparr>prod_id = Some 2, name = ''Gadget'', category = None, price = Double 2 0, stock = 3,
           added_date = Some ''2024-05-01 10:00:00''\<rparr> \<and>
   get_products shop2 =
     [\<lparr>prod_id = Some 1, name = ''Widget'', category = Some ''Tools'', price = dbl_9_99,
       stock = 50, added_date = Some ''2024-05-01 10:00:00''\<rparr>,
      \<lparr>prod_id = Some 2, name = ''Gadget'', category = Some [], price = Double 2 0, stock = 3,
       added_date = Some ''2024-05-01 10:00:00''\<rparr>]"
  by (simp add: shop2_eq get_product_by_id_def select_by_id_def fetchone_def Product_of_row_def
        get_products_def Product_of_row_list_def or_empty_def str_datetime_def)

section \<open>The invariants hold in every state the program reaches\<close>

lemma col_id_after_stock_update:
  "col_id \<circ> (\<lambda>r. if col_id r = pid then r\<lparr>col_stock := g r\<rparr> else r) = col_id"
  by (auto simp: fun_eq_iff)

lemma consistent_connect_empty: "consistent (connect empty_tables np ns now strict)"
  by (simp add: consistent_def clean_def primary_key_def ids_below_counter_def connect_def
        empty_tables_def)

lemma consistent_add_product:
  assumes "consistent c"
  shows "consistent (snd (add_product c p))"
proof -
  from assms have pk: "distinct (map col_id (products (pending c)))"
    and below: "\<forall>r\<in>set (products (pending c)). col_id r < next_product_id c"
    by (simp_all add: consistent_def primary_key_def ids_below_counter_def)
  from below have "next_product_id c \<notin> col_id ` set (products (pending c))"
    by auto
  with pk below assms show ?thesis
    by (auto simp: consistent_def clean_def primary_key_def ids_below_counter_def
          add_product_def insert_product_def commit_def)
qed

lemma consistent_update_stock:
  assumes "consistent c"
  shows "consistent (snd (update_stock c pid n))"
  using assms
  by (auto simp: consistent_def clean_def primary_key_def ids_below_counter_def
        update_stock_def update_where_id_def commit_def col_id_after_stock_update)

lemma consistent_set_stock:
  assumes "consistent c"
  shows "consistent (snd (set_stock c pid v))"
  using assms
  by (auto simp: consistent_def clean_def primary_key_def ids_below_counter_def
        set_stock_def update_where_id_def commit_def col_id_after_stock_update)

lemma consistent_delete_product:
  assumes "consistent c"
  shows "consistent (snd (delete_product c pid))"
  using assms
  by (auto simp: consistent_def clean_def primary_key_def ids_below_counter_def
        delete_product_def delete_where_id_def commit_def distinct_map_filter)

text \<open>\<^verbatim>\<open>record_sale\<close> keeps the invariants when it returns; when the rollback raises,
  the transaction is left open.\<close>

lemma consistent_record_sale:
  assumes "consistent c" and "env Rollback = None"
  shows "consistent (snd (record_sale env c pid qty))"
proof -
  let ?c' = "snd (record_sale env c pid qty)"
  from assms have cl: "clean c"
    and pk: "distinct (map col_id (products (pending c)))"
    and below: "\<forall>r\<in>set (products (pending c)). col_id r < next_product_id c"
    by (simp_all add: consistent_def primary_key_def ids_below_counter_def)
  from record_sale_all_or_nothing [where env = env and pid = pid and qty = qty, OF cl assms(2)] have "clean ?c'"
    by (auto simp: clean_def)
  moreover from record_sale_products [OF cl, of env pid qty] pk
  have "primary_key ?c'"
    by (auto simp: primary_key_def col_id_after_stock_update)
  moreover from record_sale_products [OF cl, of env pid qty] below
  have "ids_below_counter ?c'"
    by (auto simp: ids_below_counter_def record_sale_next_product_id)
  ultimately show ?thesis
    by (simp add: consistent_def)
qed

lemma shop_consistent: "consistent shop"
  unfolding shop_def fresh_def
  by (intro consistent_add_product consistent_connect_empty)

end
